theory Spec2Isabelle
  imports Complex_Main
begin

section \<open>The AWS cost analysis API (src/app.py)\<close>

text \<open>
  The program is glue around three libraries: boto3 (the Cost Explorer client), datetime and
  the float arithmetic of Python. The model takes what these libraries do as an explicit
  environment and writes out, line by line, what the handlers of src/app.py do with it.
  An exception is a value: every handler body returns \<open>exn + 'a\<close>, and the \<open>except\<close>
  clauses of the handler are a function on that sum.
\<close>

subsection \<open>Exceptions\<close>

text \<open>
  The exception classes the handlers tell apart. \<open>HTTPException\<close> carries its status code
  and detail; every other exception carries the text that \<open>str(e)\<close> returns for it.
  \<open>PyException\<close> stands for any other subclass of \<open>Exception\<close> (ValueError, KeyError,
  TypeError, OverflowError, ...).
\<close>

datatype exn =
    HTTPException nat string
  | ClientError string
  | NoCredentialsError string
  | PyException string

subsection \<open>Requests, provider results and responses\<close>

record cost_request =
  start_date :: string
  end_date :: string
  granularity :: string
  group_by :: "string option"

text \<open>The keyword arguments of \<open>get_cost_and_usage\<close>; \<open>GroupBy\<close> is a list of (Type, Key).\<close>

record ce_query =
  TimePeriod_Start :: string
  TimePeriod_End :: string
  Granularity :: string
  Metrics :: "string list"
  GroupBy :: "(string \<times> string) list option"

record metric =
  Amount :: string
  Unit :: string

record group_entry =
  Keys :: "string list"
  Metrics_BlendedCost :: metric

text \<open>
  One time bucket of the provider's result. \<open>Total_BlendedCost\<close> is
  \<open>result['Total']['BlendedCost']\<close>, \<open>None\<close> when the key is missing (a KeyError).
\<close>

record result_by_time =
  Period_Start :: string
  Period_End :: string
  Groups :: "group_entry list"
  Total_BlendedCost :: "metric option"

record cost_and_usage =
  ResultsByTime :: "result_by_time list"

text \<open>An entry of \<open>data\<close>: the key \<open>group\<close> is present on grouped entries only.\<close>

record 'f cost_item =
  period_start :: string
  period_end :: string
  item_group :: "string option"
  item_cost :: 'f
  item_currency :: string

record 'f dataset =
  label :: string
  ds_data :: "'f list"
  borderColor :: string
  backgroundColor :: string

record 'f chart =
  labels :: "string list"
  datasets :: "'f dataset list"

record 'f cost_response =
  total_cost :: 'f
  currency :: string
  data :: "'f cost_item list"
  chart_data :: "'f chart"

record forecast_query =
  fq_Start :: string
  fq_End :: string
  fq_Metric :: string
  fq_Granularity :: string

record forecast_result =
  fr_Start :: string
  MeanValue :: string
  PredictionIntervalLowerBound :: string
  PredictionIntervalUpperBound :: string

text \<open>The provider's forecast: its own total, with the unit it is in, and the points.\<close>

record forecast =
  forecast_Total :: metric
  ForecastResultsByTime :: "forecast_result list"

record 'f forecast_item =
  fi_date :: string
  mean_value :: 'f
  prediction_interval_lower :: 'f
  prediction_interval_upper :: 'f

record 'f forecast_response =
  forecast_data :: "'f forecast_item list"
  total_forecast :: 'f
  forecast_currency :: string
  forecast_days :: int

record 'f service_entry =
  service :: string
  service_cost :: 'f

record 'f services_response =
  top_services :: "'f service_entry list"
  total_services :: nat
  period_days :: int

subsection \<open>The libraries\<close>

text \<open>
  \<open>'dt\<close> is \<open>datetime\<close>, \<open>'f\<close> is \<open>float\<close>. Nothing is assumed of either: float addition
  need not be associative, \<open>flt\<close> (\<open><\<close> on floats) need not be a linear order, and every
  library call that can raise returns \<open>Inl\<close> of the exception.
  \<^item> \<open>boto3_client\<close>: what \<open>boto3.client('ce', ...)\<close> raises, \<open>None\<close> when it returns;
  \<^item> \<open>get_cost_and_usage\<close>, \<open>get_cost_forecast\<close>: the two provider calls;
  \<^item> \<open>fromisoformat\<close>, \<open>dt_ge\<close> (\<open>>=\<close>, a TypeError between naive and aware values),
    \<open>strftime_ymd\<close> (\<open>strftime('%Y-%m-%d')\<close>), \<open>now\<close>, \<open>minus_days\<close>, \<open>plus_days\<close>
    (\<open>d - timedelta(days=n)\<close>, \<open>d + timedelta(days=n)\<close>, an OverflowError out of range);
  \<^item> \<open>float_of\<close> (\<open>float(s)\<close>), \<open>fzero\<close> (\<open>0.0\<close>), \<open>fadd\<close>, \<open>flt\<close>, \<open>round2\<close>
    (\<open>round(x, 2)\<close>), \<open>py_sum\<close> (the builtin \<open>sum\<close>);
  \<^item> \<open>http_str\<close>: \<open>str(e)\<close> of an HTTPException, which depends on the framework's version.
\<close>

record ('dt, 'f) env =
  boto3_client :: "exn option"
  get_cost_and_usage :: "ce_query \<Rightarrow> exn + cost_and_usage"
  get_cost_forecast :: "forecast_query \<Rightarrow> exn + forecast"
  fromisoformat :: "string \<Rightarrow> exn + 'dt"
  dt_ge :: "'dt \<Rightarrow> 'dt \<Rightarrow> exn + bool"
  strftime_ymd :: "'dt \<Rightarrow> string"
  now :: 'dt
  minus_days :: "'dt \<Rightarrow> int \<Rightarrow> exn + 'dt"
  plus_days :: "'dt \<Rightarrow> int \<Rightarrow> exn + 'dt"
  float_of :: "string \<Rightarrow> exn + 'f"
  fzero :: 'f
  fadd :: "'f \<Rightarrow> 'f \<Rightarrow> 'f"
  flt :: "'f \<Rightarrow> 'f \<Rightarrow> bool"
  round2 :: "'f \<Rightarrow> 'f"
  py_sum :: "'f list \<Rightarrow> 'f"
  http_str :: "nat \<Rightarrow> string \<Rightarrow> string"

text \<open>The provider calls a handler has issued, in order.\<close>

datatype provider_call = CostAndUsage ce_query | CostForecast forecast_query

subsection \<open>\<open>str.replace\<close>\<close>

text \<open>
  \<open>s.replace(old, new)\<close>: every non-overlapping occurrence of \<open>old\<close>, from the left. For an
  empty \<open>old\<close> Python puts \<open>new\<close> before every character and at the end.
\<close>

function replace_from :: "string \<Rightarrow> string \<Rightarrow> string \<Rightarrow> string" where
  "replace_from old new [] = []"
| "replace_from old new (c # cs) =
     (if old \<noteq> [] \<and> take (length old) (c # cs) = old
      then new @ replace_from old new (drop (length old) (c # cs))
      else c # replace_from old new cs)"
  by pat_completeness auto
termination
  by (relation "measure (\<lambda>(old, new, s). length s)") (auto simp: Suc_le_eq)

definition str_replace :: "string \<Rightarrow> string \<Rightarrow> string \<Rightarrow> string" where
  "str_replace old new s =
     (if old = [] then new @ concat (map (\<lambda>c. c # new) s) else replace_from old new s)"

subsection \<open>\<open>get_cost_explorer_client\<close>\<close>

definition credentials_detail :: string where
  "credentials_detail = ''AWS credentials not configured. Please set AWS_ACCESS_KEY_ID and AWS_SECRET_ACCESS_KEY environment variables.''"

definition get_cost_explorer_client :: "('dt, 'f) env \<Rightarrow> exn + unit" where
  "get_cost_explorer_client env =
     (case boto3_client env of
        None \<Rightarrow> Inr ()
      | Some (NoCredentialsError s) \<Rightarrow> Inl (HTTPException 500 credentials_detail)
      | Some e \<Rightarrow> Inl e)"

subsection \<open>The \<open>except\<close> clauses shared by the three cost handlers\<close>

fun exn_str :: "('dt, 'f) env \<Rightarrow> exn \<Rightarrow> string" where
  "exn_str env (HTTPException st d) = http_str env st d"
| "exn_str env (ClientError s) = s"
| "exn_str env (NoCredentialsError s) = s"
| "exn_str env (PyException s) = s"

text \<open>
  \<open>except ClientError\<close> first, then \<open>except Exception\<close>, which every other exception of the
  body reaches: HTTPException is a subclass of Exception.
\<close>

fun except_clauses :: "('dt, 'f) env \<Rightarrow> exn + 'a \<Rightarrow> exn + 'a" where
  "except_clauses env (Inr v) = Inr v"
| "except_clauses env (Inl (ClientError s)) = Inl (HTTPException 500 (''AWS API Error: '' @ s))"
| "except_clauses env (Inl e) = Inl (HTTPException 500 (''Internal error: '' @ exn_str env e))"

subsection \<open>\<open>analyze_costs\<close>\<close>

text \<open>The four variables the loop over \<open>ResultsByTime\<close> updates.\<close>

record 'f acc =
  acc_total_cost :: 'f
  acc_currency :: string
  acc_data :: "'f cost_item list"
  acc_labels :: "string list"

definition key_error :: "string \<Rightarrow> exn" where
  "key_error k = PyException ([CHR 0x27] @ k @ [CHR 0x27])"

fun process_groups ::
  "('dt, 'f) env \<Rightarrow> string \<Rightarrow> string \<Rightarrow> group_entry list \<Rightarrow> 'f acc \<Rightarrow> exn + 'f acc" where
  "process_groups env ps pe [] a = Inr a"
| "process_groups env ps pe (g # gs) a =
     (let group_key = (case Keys g of [] \<Rightarrow> ''Unknown'' | k # ks \<Rightarrow> k) in
      case float_of env (Amount (Metrics_BlendedCost g)) of
        Inl e \<Rightarrow> Inl e
      | Inr cost \<Rightarrow>
          process_groups env ps pe gs
            \<lparr>acc_total_cost = fadd env (acc_total_cost a) cost,
             acc_currency = Unit (Metrics_BlendedCost g),
             acc_data = acc_data a @
               [\<lparr>period_start = ps, period_end = pe, item_group = Some group_key,
                 item_cost = cost, item_currency = Unit (Metrics_BlendedCost g)\<rparr>],
             acc_labels = acc_labels a\<rparr>)"

fun process_results ::
  "('dt, 'f) env \<Rightarrow> result_by_time list \<Rightarrow> 'f acc \<Rightarrow> exn + 'f acc" where
  "process_results env [] a = Inr a"
| "process_results env (r # rs) a =
     (if Groups r \<noteq> [] then
        (case process_groups env (Period_Start r) (Period_End r) (Groups r) a of
           Inl e \<Rightarrow> Inl e
         | Inr a' \<Rightarrow> process_results env rs a')
      else
        (case Total_BlendedCost r of
           None \<Rightarrow> Inl (key_error ''BlendedCost'')
         | Some m \<Rightarrow>
            (case float_of env (Amount m) of
               Inl e \<Rightarrow> Inl e
             | Inr cost \<Rightarrow>
                 process_results env rs
                   \<lparr>acc_total_cost = fadd env (acc_total_cost a) cost,
                    acc_currency = Unit m,
                    acc_data = acc_data a @
                      [\<lparr>period_start = Period_Start r, period_end = Period_End r,
                        item_group = None, item_cost = cost, item_currency = Unit m\<rparr>],
                    acc_labels = acc_labels a @ [Period_Start r]\<rparr>)))"

text \<open>\<open>groups\<close>, a dict in insertion order: \<open>groups[group_name].append(cost)\<close>.\<close>

fun groups_append :: "string \<Rightarrow> 'f \<Rightarrow> (string \<times> 'f list) list \<Rightarrow> (string \<times> 'f list) list" where
  "groups_append k v [] = [(k, [v])]"
| "groups_append k v ((k', vs) # d) =
     (if k = k' then (k', vs @ [v]) # d else (k', vs) # groups_append k v d)"

definition group_name_of :: "'f cost_item \<Rightarrow> string" where
  "group_name_of item = (case item_group item of None \<Rightarrow> ''Unknown'' | Some g \<Rightarrow> g)"

definition build_groups :: "'f cost_item list \<Rightarrow> (string \<times> 'f list) list" where
  "build_groups items =
     foldl (\<lambda>groups item. groups_append (group_name_of item) (item_cost item) groups) [] items"

definition colors :: "string list" where
  "colors = [''rgb(255, 99, 132)'', ''rgb(54, 162, 235)'', ''rgb(255, 205, 86)'',
             ''rgb(75, 192, 192)'', ''rgb(153, 102, 255)'', ''rgb(255, 159, 64)'']"

definition grouped_dataset :: "nat \<times> string \<times> 'f list \<Rightarrow> 'f dataset" where
  "grouped_dataset = (\<lambda>(i, group_name, costs).
     \<lparr>label = group_name, ds_data = costs,
      borderColor = colors ! (i mod length colors),
      backgroundColor =
        str_replace '')'' '', 0.2)'' (str_replace ''rgb'' ''rgba'' (colors ! (i mod length colors)))\<rparr>)"

definition truthy :: "string option \<Rightarrow> bool" where
  "truthy s = (s \<noteq> None \<and> s \<noteq> Some [])"

definition make_datasets :: "string option \<Rightarrow> 'f cost_item list \<Rightarrow> 'f dataset list" where
  "make_datasets gb items =
     (if \<not> truthy gb then
        [\<lparr>label = ''Cost'', ds_data = map item_cost items,
          borderColor = ''rgb(75, 192, 192)'',
          backgroundColor = ''rgba(75, 192, 192, 0.2)''\<rparr>]
      else map grouped_dataset (enumerate 0 (build_groups items)))"

definition process_response ::
  "('dt, 'f) env \<Rightarrow> cost_request \<Rightarrow> cost_and_usage \<Rightarrow> exn + 'f cost_response" where
  "process_response env request response =
     (case process_results env (ResultsByTime response)
             \<lparr>acc_total_cost = fzero env, acc_currency = ''USD'', acc_data = [], acc_labels = []\<rparr> of
        Inl e \<Rightarrow> Inl e
      | Inr a \<Rightarrow>
          Inr \<lparr>total_cost = round2 env (acc_total_cost a),
               currency = acc_currency a,
               data = acc_data a,
               chart_data = \<lparr>labels = acc_labels a,
                             datasets = make_datasets (group_by request) (acc_data a)\<rparr>\<rparr>)"

definition build_query :: "('dt, 'f) env \<Rightarrow> cost_request \<Rightarrow> 'dt \<Rightarrow> 'dt \<Rightarrow> ce_query" where
  "build_query env request start end =
     \<lparr>TimePeriod_Start = strftime_ymd env start,
      TimePeriod_End = strftime_ymd env end,
      Granularity = granularity request,
      Metrics = [''BlendedCost'', ''UnblendedCost'', ''UsageQuantity''],
      GroupBy = (if truthy (group_by request)
                 then Some [(''DIMENSION'', the (group_by request))] else None)\<rparr>"

text \<open>
  The body of the \<open>try\<close> block, with the provider calls it has issued when it returns or
  raises.
\<close>

definition analyze_body ::
  "('dt, 'f) env \<Rightarrow> cost_request \<Rightarrow> (exn + 'f cost_response) \<times> provider_call list" where
  "analyze_body env request =
     (case get_cost_explorer_client env of
        Inl e \<Rightarrow> (Inl e, [])
      | Inr ce_client \<Rightarrow>
     (case fromisoformat env (str_replace ''Z'' ''+00:00'' (start_date request)) of
        Inl e \<Rightarrow> (Inl e, [])
      | Inr start \<Rightarrow>
     (case fromisoformat env (str_replace ''Z'' ''+00:00'' (end_date request)) of
        Inl e \<Rightarrow> (Inl e, [])
      | Inr end \<Rightarrow>
     (case dt_ge env start end of
        Inl e \<Rightarrow> (Inl e, [])
      | Inr True \<Rightarrow> (Inl (HTTPException 400 ''Start date must be before end date''), [])
      | Inr False \<Rightarrow>
          (let query = build_query env request start end in
           case get_cost_and_usage env query of
             Inl e \<Rightarrow> (Inl e, [CostAndUsage query])
           | Inr response \<Rightarrow> (process_response env request response, [CostAndUsage query]))))))"

definition analyze_costs ::
  "('dt, 'f) env \<Rightarrow> cost_request \<Rightarrow> (exn + 'f cost_response) \<times> provider_call list" where
  "analyze_costs env request =
     (case analyze_body env request of (r, calls) \<Rightarrow> (except_clauses env r, calls))"

subsection \<open>\<open>get_top_services\<close>\<close>

text \<open>\<open>services\<close>, a dict in insertion order: \<open>services[service] += cost\<close> or a new key.\<close>

fun services_add ::
  "('dt, 'f) env \<Rightarrow> string \<Rightarrow> 'f \<Rightarrow> (string \<times> 'f) list \<Rightarrow> (string \<times> 'f) list" where
  "services_add env k v [] = [(k, v)]"
| "services_add env k v ((k', v') # d) =
     (if k = k' then (k', fadd env v' v) # d else (k', v') # services_add env k v d)"

definition service_key :: "group_entry \<Rightarrow> string" where
  "service_key g = (case Keys g of [] \<Rightarrow> ''Unknown'' | k # ks \<Rightarrow> k)"

fun sum_groups ::
  "('dt, 'f) env \<Rightarrow> group_entry list \<Rightarrow> (string \<times> 'f) list \<Rightarrow> exn + (string \<times> 'f) list" where
  "sum_groups env [] services = Inr services"
| "sum_groups env (g # gs) services =
     (case float_of env (Amount (Metrics_BlendedCost g)) of
        Inl e \<Rightarrow> Inl e
      | Inr cost \<Rightarrow> sum_groups env gs (services_add env (service_key g) cost services))"

fun sum_results ::
  "('dt, 'f) env \<Rightarrow> result_by_time list \<Rightarrow> (string \<times> 'f) list \<Rightarrow> exn + (string \<times> 'f) list" where
  "sum_results env [] services = Inr services"
| "sum_results env (r # rs) services =
     (case sum_groups env (Groups r) services of
        Inl e \<Rightarrow> Inl e
      | Inr services' \<Rightarrow> sum_results env rs services')"

text \<open>
  \<open>sorted(items, key=lambda x: x[1], reverse=True)\<close>: a stable sort into descending order
  that compares keys with \<open><\<close> only. An item goes before the first item whose key is not
  greater than its own, so items that tie keep the order they had.
\<close>

fun insort_desc ::
  "('dt, 'f) env \<Rightarrow> string \<times> 'f \<Rightarrow> (string \<times> 'f) list \<Rightarrow> (string \<times> 'f) list" where
  "insort_desc env x [] = [x]"
| "insort_desc env x (y # ys) =
     (if flt env (snd x) (snd y) then y # insort_desc env x ys else x # y # ys)"

definition sorted_reverse :: "('dt, 'f) env \<Rightarrow> (string \<times> 'f) list \<Rightarrow> (string \<times> 'f) list" where
  "sorted_reverse env xs = foldr (insort_desc env) xs []"

text \<open>\<open>xs[:limit]\<close>: a negative \<open>limit\<close> counts from the end.\<close>

definition slice_to :: "int \<Rightarrow> 'a list \<Rightarrow> 'a list" where
  "slice_to limit xs =
     (if 0 \<le> limit then take (nat limit) xs else take (length xs - nat (- limit)) xs)"

definition services_query :: "('dt, 'f) env \<Rightarrow> 'dt \<Rightarrow> 'dt \<Rightarrow> ce_query" where
  "services_query env start end =
     \<lparr>TimePeriod_Start = strftime_ymd env start,
      TimePeriod_End = strftime_ymd env end,
      Granularity = ''MONTHLY'',
      Metrics = [''BlendedCost''],
      GroupBy = Some [(''DIMENSION'', ''SERVICE'')]\<rparr>"

definition services_response ::
  "('dt, 'f) env \<Rightarrow> int \<Rightarrow> int \<Rightarrow> (string \<times> 'f) list \<Rightarrow> 'f services_response" where
  "services_response env days limit services =
     \<lparr>top_services =
        map (\<lambda>(s, c). \<lparr>service = s, service_cost = round2 env c\<rparr>)
          (slice_to limit (sorted_reverse env services)),
      total_services = length services,
      period_days = days\<rparr>"

definition services_body ::
  "('dt, 'f) env \<Rightarrow> int \<Rightarrow> int \<Rightarrow> (exn + 'f services_response) \<times> provider_call list" where
  "services_body env days limit =
     (case get_cost_explorer_client env of
        Inl e \<Rightarrow> (Inl e, [])
      | Inr ce_client \<Rightarrow>
     (case minus_days env (now env) days of
        Inl e \<Rightarrow> (Inl e, [])
      | Inr start \<Rightarrow>
          (let query = services_query env start (now env) in
           case get_cost_and_usage env query of
             Inl e \<Rightarrow> (Inl e, [CostAndUsage query])
           | Inr response \<Rightarrow>
              (case sum_results env (ResultsByTime response) [] of
                 Inl e \<Rightarrow> (Inl e, [CostAndUsage query])
               | Inr services \<Rightarrow>
                   (Inr (services_response env days limit services), [CostAndUsage query])))))"

definition get_top_services ::
  "('dt, 'f) env \<Rightarrow> int \<Rightarrow> int \<Rightarrow> (exn + 'f services_response) \<times> provider_call list" where
  "get_top_services env days limit =
     (case services_body env days limit of (r, calls) \<Rightarrow> (except_clauses env r, calls))"

subsection \<open>\<open>get_cost_forecast\<close>\<close>

fun forecast_items ::
  "('dt, 'f) env \<Rightarrow> forecast_result list \<Rightarrow> exn + 'f forecast_item list" where
  "forecast_items env [] = Inr []"
| "forecast_items env (r # rs) =
     (case float_of env (MeanValue r) of
        Inl e \<Rightarrow> Inl e
      | Inr m \<Rightarrow>
     (case float_of env (PredictionIntervalLowerBound r) of
        Inl e \<Rightarrow> Inl e
      | Inr lo \<Rightarrow>
     (case float_of env (PredictionIntervalUpperBound r) of
        Inl e \<Rightarrow> Inl e
      | Inr up \<Rightarrow>
     (case forecast_items env rs of
        Inl e \<Rightarrow> Inl e
      | Inr items \<Rightarrow>
          Inr (\<lparr>fi_date = fr_Start r, mean_value = m,
                prediction_interval_lower = lo, prediction_interval_upper = up\<rparr> # items)))))"

definition forecast_body ::
  "('dt, 'f) env \<Rightarrow> int \<Rightarrow> (exn + 'f forecast_response) \<times> provider_call list" where
  "forecast_body env days =
     (case get_cost_explorer_client env of
        Inl e \<Rightarrow> (Inl e, [])
      | Inr ce_client \<Rightarrow>
     (case plus_days env (now env) days of
        Inl e \<Rightarrow> (Inl e, [])
      | Inr end \<Rightarrow>
          (let query = \<lparr>fq_Start = strftime_ymd env (now env), fq_End = strftime_ymd env end,
                        fq_Metric = ''BLENDED_COST'', fq_Granularity = ''DAILY''\<rparr> in
           case get_cost_forecast env query of
             Inl e \<Rightarrow> (Inl e, [CostForecast query])
           | Inr response \<Rightarrow>
              (case forecast_items env (ForecastResultsByTime response) of
                 Inl e \<Rightarrow> (Inl e, [CostForecast query])
               | Inr items \<Rightarrow>
                   (Inr \<lparr>forecast_data = items,
                         total_forecast = py_sum env (map mean_value items),
                         forecast_currency = ''USD'',
                         forecast_days = days\<rparr>, [CostForecast query])))))"

definition get_cost_forecast_handler ::
  "('dt, 'f) env \<Rightarrow> int \<Rightarrow> (exn + 'f forecast_response) \<times> provider_call list" where
  "get_cost_forecast_handler env days =
     (case forecast_body env days of (r, calls) \<Rightarrow> (except_clauses env r, calls))"

section \<open>Notions the properties are stated with\<close>

text \<open>
  The running total of the loop is a sum of floats taken from the left, starting at \<open>0.0\<close>:
  float addition is not associative, so the order is part of the notion.
\<close>

definition float_total :: "('dt, 'f) env \<Rightarrow> 'f list \<Rightarrow> 'f" where
  "float_total env xs = foldl (fadd env) (fzero env) xs"

text \<open>What the loop of \<open>analyze_costs\<close> keeps true of its variables.\<close>

definition acc_inv :: "('dt, 'f) env \<Rightarrow> 'f acc \<Rightarrow> bool" where
  "acc_inv env a =
     (acc_total_cost a = float_total env (map item_cost (acc_data a)) \<and>
      acc_currency a = (if acc_data a = [] then ''USD'' else item_currency (last (acc_data a))))"

text \<open>An outcome that is an HTTP error with a status from 400 to 499.\<close>

definition is_client_error :: "exn + 'a \<Rightarrow> bool" where
  "is_client_error r =
     (case r of Inl (HTTPException st d) \<Rightarrow> 400 \<le> st \<and> st < 500 | _ \<Rightarrow> False)"

text \<open>The elements of a list in the order of their first occurrence.\<close>

fun first_seen :: "'a list \<Rightarrow> 'a list" where
  "first_seen [] = []"
| "first_seen (x # xs) = x # removeAll x (first_seen xs)"

text \<open>\<open>b\<close> occurs in \<open>xs\<close> after the first occurrence of \<open>a\<close>.\<close>

definition occurs_before :: "'a list \<Rightarrow> 'a \<Rightarrow> 'a \<Rightarrow> bool" where
  "occurs_before xs a b = (b \<in> set (drop 1 (dropWhile (\<lambda>x. x \<noteq> a) xs)))"

text \<open>
  \<open><\<close> orders the floats of \<open>S\<close> as it orders numbers: it is asymmetric, and \<open>\<ge>\<close> is
  transitive. This holds of every set of floats without a NaN.
\<close>

definition strict_weak_order_on :: "('dt, 'f) env \<Rightarrow> 'f set \<Rightarrow> bool" where
  "strict_weak_order_on env S =
     ((\<forall>a\<in>S. \<forall>b\<in>S. flt env a b \<longrightarrow> \<not> flt env b a) \<and>
      (\<forall>a\<in>S. \<forall>b\<in>S. \<forall>c\<in>S. \<not> flt env a b \<and> \<not> flt env b c \<longrightarrow> \<not> flt env a c))"

text \<open>\<open>a\<close> may stand before \<open>b\<close> in the sorted items of \<open>xs\<close>.\<close>

definition ranked ::
  "('dt, 'f) env \<Rightarrow> (string \<times> 'f) list \<Rightarrow> string \<times> 'f \<Rightarrow> string \<times> 'f \<Rightarrow> bool" where
  "ranked env xs a b =
     (\<not> flt env (snd a) (snd b) \<and> (\<not> flt env (snd b) (snd a) \<longrightarrow> occurs_before xs a b))"

section \<open>A concrete environment\<close>

text \<open>
  The libraries on the inputs the examples use: three days of January 2024 as their day
  numbers, three amounts as the reals they denote (floats represent them, and their sums
  here, exactly), and a provider that answers every query with the same result.
\<close>

definition january :: "string \<Rightarrow> exn + nat" where
  "january s =
     (if s = ''2024-01-01'' then Inr 1
      else if s = ''2024-01-02'' then Inr 2
      else if s = ''2024-01-03'' then Inr 3
      else Inl (PyException (''Invalid isoformat string: '' @ [CHR 0x27] @ s @ [CHR 0x27])))"

definition january_ymd :: "nat \<Rightarrow> string" where
  "january_ymd d =
     (if d = 1 then ''2024-01-01''
      else if d = 2 then ''2024-01-02''
      else if d = 3 then ''2024-01-03''
      else ''2024-01-31'')"

definition amount :: "string \<Rightarrow> exn + real" where
  "amount s =
     (if s = ''10.00'' then Inr 10
      else if s = ''20.00'' then Inr 20
      else if s = ''5.00'' then Inr 5
      else Inl (PyException (''could not convert string to float: '' @ [CHR 0x27] @ s @ [CHR 0x27])))"

definition example_env ::
  "exn option \<Rightarrow> (exn + cost_and_usage) \<Rightarrow> (exn + forecast) \<Rightarrow> (nat, real) env" where
  "example_env client usage fc =
     \<lparr>boto3_client = client,
      get_cost_and_usage = (\<lambda>q. usage),
      get_cost_forecast = (\<lambda>q. fc),
      fromisoformat = january,
      dt_ge = (\<lambda>a b. Inr (b \<le> a)),
      strftime_ymd = january_ymd,
      now = 31,
      minus_days = (\<lambda>d n. if 0 \<le> n \<and> nat n < d then Inr (d - nat n)
                            else Inl (PyException ''date value out of range'')),
      plus_days = (\<lambda>d n. if 0 \<le> n then Inr (d + nat n)
                           else Inl (PyException ''date value out of range'')),
      float_of = amount,
      fzero = 0,
      fadd = (+),
      flt = (<),
      round2 = (\<lambda>x. x),
      py_sum = sum_list,
      http_str = (\<lambda>st d. (if st = 400 then ''400'' else ''500'') @ '': '' @ d)\<rparr>"

definition no_usage :: "exn + cost_and_usage" where
  "no_usage = Inl (ClientError ''not called'')"

definition no_forecast :: "exn + forecast" where
  "no_forecast = Inl (ClientError ''not called'')"

definition bucket :: "string \<Rightarrow> string \<Rightarrow> string \<Rightarrow> string \<Rightarrow> result_by_time" where
  "bucket s e a u =
     \<lparr>Period_Start = s, Period_End = e, Groups = [],
      Total_BlendedCost = Some \<lparr>Amount = a, Unit = u\<rparr>\<rparr>"

definition two_days :: cost_and_usage where
  "two_days = \<lparr>ResultsByTime =
     [bucket ''2024-01-01'' ''2024-01-02'' ''10.00'' ''USD'',
      bucket ''2024-01-02'' ''2024-01-03'' ''20.00'' ''EUR'']\<rparr>"

definition two_days_request :: cost_request where
  "two_days_request =
     \<lparr>start_date = ''2024-01-01'', end_date = ''2024-01-03'', granularity = ''DAILY'',
      group_by = None\<rparr>"

definition two_days_data :: "real cost_item list" where
  "two_days_data =
     [\<lparr>period_start = ''2024-01-01'', period_end = ''2024-01-02'', item_group = None,
       item_cost = 10, item_currency = ''USD''\<rparr>,
      \<lparr>period_start = ''2024-01-02'', period_end = ''2024-01-03'', item_group = None,
       item_cost = 20, item_currency = ''EUR''\<rparr>]"

definition two_days_response :: "real cost_response" where
  "two_days_response =
     \<lparr>total_cost = 30, currency = ''EUR'', data = two_days_data,
      chart_data = \<lparr>labels = [''2024-01-01'', ''2024-01-02''],
                    datasets = [\<lparr>label = ''Cost'', ds_data = [10, 20],
                                 borderColor = ''rgb(75, 192, 192)'',
                                 backgroundColor = ''rgba(75, 192, 192, 0.2)''\<rparr>]\<rparr>\<rparr>"

text \<open>The same provider result for a request that asks for groups.\<close>

definition by_service_request :: cost_request where
  "by_service_request =
     \<lparr>start_date = ''2024-01-01'', end_date = ''2024-01-03'', granularity = ''DAILY'',
      group_by = Some ''SERVICE''\<rparr>"

definition unknown_response :: "real cost_response" where
  "unknown_response =
     \<lparr>total_cost = 30, currency = ''EUR'', data = two_days_data,
      chart_data = \<lparr>labels = [''2024-01-01'', ''2024-01-02''],
                    datasets = [\<lparr>label = ''Unknown'', ds_data = [10, 20],
                                 borderColor = ''rgb(255, 99, 132)'',
                                 backgroundColor = ''rgba(255, 99, 132, 0.2)''\<rparr>]\<rparr>\<rparr>"

definition service_group :: "string \<Rightarrow> string \<Rightarrow> group_entry" where
  "service_group k a = \<lparr>Keys = [k], Metrics_BlendedCost = \<lparr>Amount = a, Unit = ''USD''\<rparr>\<rparr>"

definition grouped_days :: cost_and_usage where
  "grouped_days = \<lparr>ResultsByTime =
     [\<lparr>Period_Start = ''2024-01-01'', Period_End = ''2024-01-02'',
       Groups = [service_group ''EC2'' ''10.00'', service_group ''S3'' ''5.00''],
       Total_BlendedCost = None\<rparr>,
      \<lparr>Period_Start = ''2024-01-02'', Period_End = ''2024-01-03'',
       Groups = [service_group ''EC2'' ''20.00'', service_group ''S3'' ''5.00'',
                 service_group ''RDS'' ''10.00''],
       Total_BlendedCost = None\<rparr>]\<rparr>"

definition grouped_item :: "string \<Rightarrow> string \<Rightarrow> string \<Rightarrow> real \<Rightarrow> real cost_item" where
  "grouped_item s e g c =
     \<lparr>period_start = s, period_end = e, item_group = Some g, item_cost = c,
      item_currency = ''USD''\<rparr>"

definition grouped_response :: "real cost_response" where
  "grouped_response =
     \<lparr>total_cost = 50, currency = ''USD'',
      data = [grouped_item ''2024-01-01'' ''2024-01-02'' ''EC2'' 10,
              grouped_item ''2024-01-01'' ''2024-01-02'' ''S3'' 5,
              grouped_item ''2024-01-02'' ''2024-01-03'' ''EC2'' 20,
              grouped_item ''2024-01-02'' ''2024-01-03'' ''S3'' 5,
              grouped_item ''2024-01-02'' ''2024-01-03'' ''RDS'' 10],
      chart_data = \<lparr>labels = [],
                    datasets = [\<lparr>label = ''EC2'', ds_data = [10, 20],
                                 borderColor = ''rgb(255, 99, 132)'',
                                 backgroundColor = ''rgba(255, 99, 132, 0.2)''\<rparr>,
                                \<lparr>label = ''S3'', ds_data = [5, 5],
                                 borderColor = ''rgb(54, 162, 235)'',
                                 backgroundColor = ''rgba(54, 162, 235, 0.2)''\<rparr>,
                                \<lparr>label = ''RDS'', ds_data = [10],
                                 borderColor = ''rgb(255, 205, 86)'',
                                 backgroundColor = ''rgba(255, 205, 86, 0.2)''\<rparr>]\<rparr>\<rparr>"

definition inverted_request :: cost_request where
  "inverted_request =
     \<lparr>start_date = ''2024-01-03'', end_date = ''2024-01-01'', granularity = ''DAILY'',
      group_by = None\<rparr>"


definition service_totals :: "(string \<times> real) list" where
  "service_totals = [(''EC2'', 30), (''S3'', 10), (''RDS'', 10)]"

definition top3_response :: "real services_response" where
  "top3_response =
     \<lparr>top_services = [\<lparr>service = ''EC2'', service_cost = 30\<rparr>,
                      \<lparr>service = ''S3'', service_cost = 10\<rparr>,
                      \<lparr>service = ''RDS'', service_cost = 10\<rparr>],
      total_services = 3, period_days = 30\<rparr>"

definition all_but_last_response :: "real services_response" where
  "all_but_last_response =
     \<lparr>top_services = [\<lparr>service = ''EC2'', service_cost = 30\<rparr>,
                      \<lparr>service = ''S3'', service_cost = 10\<rparr>],
      total_services = 3, period_days = 30\<rparr>"

definition two_points :: forecast where
  "two_points =
     \<lparr>forecast_Total = \<lparr>Amount = ''30.00'', Unit = ''EUR''\<rparr>,
      ForecastResultsByTime =
        [\<lparr>fr_Start = ''2024-01-31'', MeanValue = ''10.00'',
          PredictionIntervalLowerBound = ''5.00'', PredictionIntervalUpperBound = ''20.00''\<rparr>,
         \<lparr>fr_Start = ''2024-02-01'', MeanValue = ''20.00'',
          PredictionIntervalLowerBound = ''10.00'', PredictionIntervalUpperBound = ''20.00''\<rparr>]\<rparr>"

definition two_points_response :: "real forecast_response" where
  "two_points_response =
     \<lparr>forecast_data =
        [\<lparr>fi_date = ''2024-01-31'', mean_value = 10, prediction_interval_lower = 5,
          prediction_interval_upper = 20\<rparr>,
         \<lparr>fi_date = ''2024-02-01'', mean_value = 20, prediction_interval_lower = 10,
          prediction_interval_upper = 20\<rparr>],
      total_forecast = 30, forecast_currency = ''USD'', forecast_days = 2\<rparr>"

section \<open>The \<open>except\<close> clauses\<close>

lemma except_clauses_Inr: "except_clauses env x = Inr r \<Longrightarrow> x = Inr r"
  by (cases "(env, x)" rule: except_clauses.cases) auto

lemma except_clauses_Inl: "\<exists>d. except_clauses env (Inl e) = Inl (HTTPException 500 d)"
  by (cases e) simp_all


section \<open>The loop of \<open>analyze_costs\<close>\<close>

lemma process_groups_inv:
  "process_groups env ps pe gs a = Inr a' \<Longrightarrow> acc_inv env a \<Longrightarrow> acc_inv env a'"
proof (induction gs arbitrary: a)
  case Nil
  then show ?case by simp
next
  case (Cons g gs)
  from Cons.prems(1) obtain c where c: "float_of env (Amount (Metrics_BlendedCost g)) = Inr c"
    by (auto simp: Let_def split: sum.splits)
  let ?a = "\<lparr>acc_total_cost = fadd env (acc_total_cost a) c,
             acc_currency = Unit (Metrics_BlendedCost g),
             acc_data = acc_data a @
               [\<lparr>period_start = ps, period_end = pe,
                 item_group = Some (case Keys g of [] \<Rightarrow> ''Unknown'' | k # ks \<Rightarrow> k),
                 item_cost = c, item_currency = Unit (Metrics_BlendedCost g)\<rparr>],
             acc_labels = acc_labels a\<rparr>"
  from Cons.prems(1) c have step: "process_groups env ps pe gs ?a = Inr a'"
    by (simp add: Let_def)
  from Cons.prems(2) have "acc_inv env ?a"
    by (simp add: acc_inv_def float_total_def)
  with Cons.IH step show ?case by blast
qed

lemma process_results_inv:
  "process_results env rs a = Inr a' \<Longrightarrow> acc_inv env a \<Longrightarrow> acc_inv env a'"
proof (induction rs arbitrary: a)
  case Nil
  then show ?case by simp
next
  case (Cons r rs)
  show ?case
  proof (cases "Groups r \<noteq> []")
    case True
    with Cons.prems(1) obtain b where
      b: "process_groups env (Period_Start r) (Period_End r) (Groups r) a = Inr b"
      and rest: "process_results env rs b = Inr a'"
      by (auto split: sum.splits)
    from process_groups_inv [OF b Cons.prems(2)] Cons.IH rest show ?thesis by blast
  next
    case False
    with Cons.prems(1) obtain m c where m: "Total_BlendedCost r = Some m"
      and c: "float_of env (Amount m) = Inr c"
      by (auto split: option.splits sum.splits)
    let ?a = "\<lparr>acc_total_cost = fadd env (acc_total_cost a) c,
               acc_currency = Unit m,
               acc_data = acc_data a @
                 [\<lparr>period_start = Period_Start r, period_end = Period_End r,
                   item_group = None, item_cost = c, item_currency = Unit m\<rparr>],
               acc_labels = acc_labels a @ [Period_Start r]\<rparr>"
    from Cons.prems(1) False m c have rest: "process_results env rs ?a = Inr a'"
      by simp
    from Cons.prems(2) have "acc_inv env ?a"
      by (simp add: acc_inv_def float_total_def)
    with Cons.IH rest show ?thesis by blast
  qed
qed

lemma process_response_Inr:
  assumes "process_response env request response = Inr r"
  shows "\<exists>a. process_results env (ResultsByTime response)
             \<lparr>acc_total_cost = fzero env, acc_currency = ''USD'', acc_data = [], acc_labels = []\<rparr> = Inr a
           \<and> acc_inv env a
           \<and> r = \<lparr>total_cost = round2 env (acc_total_cost a), currency = acc_currency a,
                  data = acc_data a,
                  chart_data = \<lparr>labels = acc_labels a,
                                datasets = make_datasets (group_by request) (acc_data a)\<rparr>\<rparr>"
proof -
  let ?a0 = "\<lparr>acc_total_cost = fzero env, acc_currency = ''USD'', acc_data = [], acc_labels = []\<rparr>"
  from assms obtain a where a: "process_results env (ResultsByTime response) ?a0 = Inr a"
    and r: "r = \<lparr>total_cost = round2 env (acc_total_cost a), currency = acc_currency a,
                  data = acc_data a,
                  chart_data = \<lparr>labels = acc_labels a,
                                datasets = make_datasets (group_by request) (acc_data a)\<rparr>\<rparr>"
    by (auto simp: process_response_def split: sum.splits)
  have "acc_inv env ?a0" by (simp add: acc_inv_def float_total_def)
  with process_results_inv [OF a] a r show ?thesis by blast
qed

lemma process_response_datasets:
  "process_response env request response = Inr r \<Longrightarrow>
   datasets (chart_data r) = make_datasets (group_by request) (data r)"
  by (auto simp: process_response_def split: sum.splits)

lemma analyze_costs_Inr:
  assumes "fst (analyze_costs env request) = Inr r"
  shows "\<exists>response. process_response env request response = Inr r"
proof -
  from assms have "fst (analyze_body env request) = Inr r"
    by (auto simp: analyze_costs_def split: prod.splits dest: except_clauses_Inr)
  then show ?thesis
    by (auto simp: analyze_body_def Let_def split: sum.splits bool.splits)
qed

section \<open>The examples, evaluated\<close>

lemma replace_Z_dates:
  "str_replace ''Z'' ''+00:00'' ''2024-01-01'' = ''2024-01-01''"
  "str_replace ''Z'' ''+00:00'' ''2024-01-03'' = ''2024-01-03''"
  "str_replace ''Z'' ''+00:00'' ''not-a-date'' = ''not-a-date''"
  by (simp_all add: str_replace_def)

lemma length_colors: "length colors = 6"
  by (simp add: colors_def)

lemma grouped_dataset_examples:
  "grouped_dataset (0, n, cs) =
     \<lparr>label = n, ds_data = cs, borderColor = ''rgb(255, 99, 132)'',
      backgroundColor = ''rgba(255, 99, 132, 0.2)''\<rparr>"
  "grouped_dataset (Suc 0, n, cs) =
     \<lparr>label = n, ds_data = cs, borderColor = ''rgb(54, 162, 235)'',
      backgroundColor = ''rgba(54, 162, 235, 0.2)''\<rparr>"
  "grouped_dataset (Suc (Suc 0), n, cs) =
     \<lparr>label = n, ds_data = cs, borderColor = ''rgb(255, 205, 86)'',
      backgroundColor = ''rgba(255, 205, 86, 0.2)''\<rparr>"
  by (simp_all add: grouped_dataset_def length_colors mod_Suc)
    (simp_all add: colors_def str_replace_def)

lemmas analyze_defs =
  analyze_costs_def analyze_body_def get_cost_explorer_client_def example_env_def
  january_def january_ymd_def build_query_def truthy_def process_response_def amount_def
  make_datasets_def replace_Z_dates

lemma analyze_two_days:
  "analyze_costs (example_env None (Inr two_days) fc) two_days_request =
     (Inr two_days_response,
      [CostAndUsage \<lparr>TimePeriod_Start = ''2024-01-01'', TimePeriod_End = ''2024-01-03'',
                     Granularity = ''DAILY'',
                     Metrics = [''BlendedCost'', ''UnblendedCost'', ''UsageQuantity''],
                     GroupBy = None\<rparr>])"
  by (simp add: analyze_defs two_days_request_def two_days_def bucket_def
      two_days_response_def two_days_data_def)

lemma analyze_by_service_without_groups:
  "fst (analyze_costs (example_env None (Inr two_days) fc) by_service_request) =
     Inr unknown_response"
  by (simp add: analyze_defs by_service_request_def two_days_def bucket_def
      unknown_response_def two_days_data_def build_groups_def group_name_of_def
      grouped_dataset_examples)

lemma analyze_grouped_days:
  "fst (analyze_costs (example_env None (Inr grouped_days) fc) by_service_request) =
     Inr grouped_response"
  by (simp add: analyze_defs by_service_request_def grouped_days_def service_group_def
      grouped_response_def grouped_item_def build_groups_def group_name_of_def
      grouped_dataset_examples)

lemma analyze_inverted:
  "analyze_costs (example_env None usage fc) inverted_request =
     (Inl (HTTPException 500 ''Internal error: 400: Start date must be before end date''), [])"
  by (simp add: analyze_defs inverted_request_def)


lemma sum_grouped_days:
  "sum_results (example_env None (Inr grouped_days) fc) (ResultsByTime grouped_days) [] =
     Inr service_totals"
  by (simp add: grouped_days_def service_group_def service_key_def example_env_def amount_def
      service_totals_def)

lemma sorted_service_totals:
  "sorted_reverse (example_env client usage fc) service_totals = service_totals"
  by (simp add: sorted_reverse_def service_totals_def example_env_def)

lemma services_of_grouped_days:
  "fst (get_top_services (example_env None (Inr grouped_days) fc) 30 limit) =
     Inr (services_response (example_env None (Inr grouped_days) fc) 30 limit service_totals)"
proof -
  have "minus_days (example_env None (Inr grouped_days) fc)
          (now (example_env None (Inr grouped_days) fc)) 30 = Inr 1"
    by (simp add: example_env_def)
  moreover have "get_cost_and_usage (example_env None (Inr grouped_days) fc) q = Inr grouped_days"
    for q
    by (simp add: example_env_def)
  moreover have "get_cost_explorer_client (example_env None (Inr grouped_days) fc) = Inr ()"
    by (simp add: get_cost_explorer_client_def example_env_def)
  ultimately show ?thesis
    by (simp add: get_top_services_def services_body_def sum_grouped_days)
qed

lemma top3_of_grouped_days:
  "fst (get_top_services (example_env None (Inr grouped_days) fc) 30 10) = Inr top3_response"
  by (simp add: services_of_grouped_days services_response_def sorted_service_totals
      slice_to_def top3_response_def)
    (simp add: service_totals_def example_env_def)

lemma all_but_last_of_grouped_days:
  "fst (get_top_services (example_env None (Inr grouped_days) fc) 30 (- 1)) =
     Inr all_but_last_response"
  by (simp add: services_of_grouped_days services_response_def sorted_service_totals
      slice_to_def all_but_last_response_def)
    (simp add: service_totals_def example_env_def)

lemma forecast_of_two_points:
  "fst (get_cost_forecast_handler (example_env None usage (Inr two_points)) 2) =
     Inr two_points_response"
  by (simp add: get_cost_forecast_handler_def forecast_body_def get_cost_explorer_client_def
      example_env_def two_points_def amount_def two_points_response_def)

lemma example_env_order: "strict_weak_order_on (example_env client usage fc) S"
  by (auto simp: strict_weak_order_on_def example_env_def)

section \<open>Properties of \<open>/costs/analyze\<close>\<close>

text \<open>
  Claim C1: whenever \<open>/costs/analyze\<close> answers (which takes a valid date range), the field
  \<open>total_cost\<close> of the response is the sum of the costs of the entries of \<open>data\<close>, rounded
  to two decimals. The sum is the float sum from the left, in the order of the entries,
  starting at \<open>0.0\<close>, and the rounding is \<open>round(x, 2)\<close>.
\<close>

theorem total_cost_is_rounded_sum:
  assumes "fst (analyze_costs env request) = Inr r"
  shows "total_cost r = round2 env (float_total env (map item_cost (data r)))"
proof -
  from analyze_costs_Inr [OF assms] obtain response
    where "process_response env request response = Inr r" by blast
  from process_response_Inr [OF this] show ?thesis
    by (auto simp: acc_inv_def)
qed

theorem total_cost_is_rounded_sum_witness:
  "fst (analyze_costs (example_env None (Inr two_days) no_forecast) two_days_request)
     = Inr two_days_response \<and>
   total_cost two_days_response =
     round2 (example_env None (Inr two_days) no_forecast)
       (float_total (example_env None (Inr two_days) no_forecast)
          (map item_cost (data two_days_response)))"
proof -
  have h: "fst (analyze_costs (example_env None (Inr two_days) no_forecast) two_days_request)
     = Inr two_days_response"
    by (simp add: analyze_two_days)
  from total_cost_is_rounded_sum [OF h] h show ?thesis by simp
qed

text \<open>
  Claim C2: a request whose parsed start date is greater than or equal to its parsed end
  date should get a client error (4xx) and cause no provider call. The handler issues no
  provider call, but the error it returns has status 500: the \<open>HTTPException\<close> with status
  400 is raised inside the \<open>try\<close> block and \<open>except Exception\<close> turns it into an internal
  error.
\<close>

theorem inverted_range_is_500:
  assumes "fromisoformat env (str_replace ''Z'' ''+00:00'' (start_date request)) = Inr start"
    and "fromisoformat env (str_replace ''Z'' ''+00:00'' (end_date request)) = Inr end"
    and "dt_ge env start end = Inr True"
  shows "snd (analyze_costs env request) = [] \<and>
         (\<exists>d. fst (analyze_costs env request) = Inl (HTTPException 500 d)) \<and>
         (boto3_client env = None \<longrightarrow>
            fst (analyze_costs env request) =
              Inl (HTTPException 500
                (''Internal error: '' @ http_str env 400 ''Start date must be before end date'')))"
proof -
  have body: "snd (analyze_body env request) = [] \<and> (\<exists>e. fst (analyze_body env request) = Inl e)"
    using assms by (simp add: analyze_body_def split: sum.splits)
  have ok: "boto3_client env = None \<Longrightarrow> fst (analyze_body env request) =
      Inl (HTTPException 400 ''Start date must be before end date'')"
    using assms by (simp add: analyze_body_def get_cost_explorer_client_def)
  from body obtain e where e: "analyze_body env request = (Inl e, [])"
    by (cases "analyze_body env request") auto
  from except_clauses_Inl [of env e] obtain d
    where d: "except_clauses env (Inl e :: exn + 'b cost_response) = Inl (HTTPException 500 d)" ..
  from e d ok show ?thesis
    by (auto simp: analyze_costs_def)
qed

theorem inverted_range_is_500_witness:
  "dt_ge (example_env None no_usage no_forecast) 3 1 = Inr True \<and>
   snd (analyze_costs (example_env None no_usage no_forecast) inverted_request) = [] \<and>
   fst (analyze_costs (example_env None no_usage no_forecast) inverted_request) =
     Inl (HTTPException 500 ''Internal error: 400: Start date must be before end date'') \<and>
   \<not> is_client_error (fst (analyze_costs (example_env None no_usage no_forecast) inverted_request))"
proof -
  let ?env = "example_env None no_usage no_forecast"
  have s: "fromisoformat ?env (str_replace ''Z'' ''+00:00'' (start_date inverted_request)) = Inr 3"
    by (simp add: inverted_request_def replace_Z_dates example_env_def january_def)
  have e: "fromisoformat ?env (str_replace ''Z'' ''+00:00'' (end_date inverted_request)) = Inr 1"
    by (simp add: inverted_request_def replace_Z_dates example_env_def january_def)
  have ge: "dt_ge ?env 3 1 = Inr True"
    by (simp add: example_env_def)
  have c: "boto3_client ?env = None"
    by (simp add: example_env_def)
  from inverted_range_is_500 [OF s e ge] c ge
  have "dt_ge ?env 3 1 = Inr True \<and>
        snd (analyze_costs ?env inverted_request) = [] \<and>
        fst (analyze_costs ?env inverted_request) =
          Inl (HTTPException 500
            (''Internal error: '' @ http_str ?env 400 ''Start date must be before end date''))"
    by simp
  then show ?thesis
    by (simp add: is_client_error_def) (simp add: example_env_def)
qed

text \<open>
  The keys of \<open>groups\<close> are distinct and are the names under which the entries are
  charted, so the number of series is the number of these names.
\<close>

lemma groups_append_keys:
  "map fst (groups_append k v d) = (if k \<in> fst ` set d then map fst d else map fst d @ [k])"
  by (induction d) force+

lemma fold_groups_keys:
  "distinct (map fst d) \<Longrightarrow>
   distinct (map fst (foldl (\<lambda>groups item. groups_append (group_name_of item) (item_cost item) groups) d items)) \<and>
   fst ` set (foldl (\<lambda>groups item. groups_append (group_name_of item) (item_cost item) groups) d items)
     = fst ` set d \<union> group_name_of ` set items"
proof (induction items arbitrary: d)
  case Nil
  then show ?case by simp
next
  case (Cons item items)
  let ?d = "groups_append (group_name_of item) (item_cost item) d"
  have k: "map fst ?d = (if group_name_of item \<in> fst ` set d then map fst d
                         else map fst d @ [group_name_of item])"
    by (rule groups_append_keys)
  from Cons.prems k have dist: "distinct (map fst ?d)" by auto
  from k have "set (map fst ?d) = insert (group_name_of item) (fst ` set d)"
    by (auto split: if_splits)
  then have s: "fst ` set ?d = insert (group_name_of item) (fst ` set d)" by simp
  from Cons.IH [OF dist] s show ?case by simp
qed

lemma length_build_groups: "length (build_groups items) = card (group_name_of ` set items)"
proof -
  have d: "distinct (map fst (build_groups items))"
    and s: "fst ` set (build_groups items) = group_name_of ` set items"
    using fold_groups_keys [of "[]" items] by (simp_all add: build_groups_def)
  have "length (build_groups items) = length (map fst (build_groups items))" by simp
  also have "\<dots> = card (set (map fst (build_groups items)))"
    using d by (simp only: distinct_card)
  also have "\<dots> = card (group_name_of ` set items)" using s by simp
  finally show ?thesis .
qed

lemma all_grouped_names:
  "\<forall>item\<in>set items. item_group item \<noteq> None \<Longrightarrow>
   group_name_of ` set items = set (List.map_filter item_group items)"
  by (induction items) (auto simp: group_name_of_def split: option.splits)

text \<open>
  Claim C3: when \<open>group_by\<close> is omitted, \<open>datasets\<close> has exactly one series; when it is
  present, the number of series is the number of distinct group labels of the entries of
  \<open>data\<close>, an entry without a group counting under the label \<open>Unknown\<close> (amended).
\<close>

theorem chart_series_count:
  assumes "fst (analyze_costs env request) = Inr r"
  shows "(\<not> truthy (group_by request) \<longrightarrow> length (datasets (chart_data r)) = 1) \<and>
         (truthy (group_by request) \<longrightarrow>
            length (datasets (chart_data r)) = card (group_name_of ` set (data r))) \<and>
         (truthy (group_by request) \<and> (\<forall>item\<in>set (data r). item_group item \<noteq> None) \<longrightarrow>
            length (datasets (chart_data r)) = card (set (List.map_filter item_group (data r))))"
proof -
  from analyze_costs_Inr [OF assms] obtain response
    where "process_response env request response = Inr r" by blast
  from process_response_datasets [OF this]
  have r: "datasets (chart_data r) = make_datasets (group_by request) (data r)" .
  have one: "\<not> truthy (group_by request) \<Longrightarrow> length (datasets (chart_data r)) = 1"
    by (simp add: r make_datasets_def)
  have many: "truthy (group_by request) \<Longrightarrow>
      length (datasets (chart_data r)) = card (group_name_of ` set (data r))"
    by (simp add: r make_datasets_def length_build_groups)
  from one many show ?thesis
    by (auto simp: all_grouped_names)
qed

theorem chart_series_count_witness:
  "\<not> truthy (group_by two_days_request) \<and>
   length (datasets (chart_data two_days_response)) = 1 \<and>
   truthy (group_by by_service_request) \<and>
   length (datasets (chart_data grouped_response)) =
     card (group_name_of ` set (data grouped_response))"
proof -
  have h1: "fst (analyze_costs (example_env None (Inr two_days) no_forecast) two_days_request)
     = Inr two_days_response"
    by (simp add: analyze_two_days)
  have h2: "fst (analyze_costs (example_env None (Inr grouped_days) no_forecast) by_service_request)
     = Inr grouped_response"
    by (rule analyze_grouped_days)
  have t1: "\<not> truthy (group_by two_days_request)"
    by (simp add: truthy_def two_days_request_def)
  have t2: "truthy (group_by by_service_request)"
    by (simp add: truthy_def by_service_request_def)
  from chart_series_count [OF h1] chart_series_count [OF h2] t1 t2 show ?thesis
    by simp
qed

theorem chart_series_count_counterexample:
  "fst (analyze_costs (example_env None (Inr two_days) no_forecast) by_service_request)
     = Inr unknown_response \<and>
   group_by by_service_request = Some ''SERVICE'' \<and>
   length (datasets (chart_data unknown_response)) = 1 \<and>
   card (set (List.map_filter item_group (data unknown_response))) = 0"
  by (simp add: analyze_by_service_without_groups)
    (simp add: by_service_request_def unknown_response_def two_days_data_def)

text \<open>
  Claim C7: the field \<open>currency\<close> of the response is the currency of the last entry of
  \<open>data\<close>, that is of the last cost record processed, whatever the currencies of the
  entries before it; with no entry it is the initial \<open>USD\<close>.
\<close>

theorem currency_last_write_wins:
  assumes "fst (analyze_costs env request) = Inr r"
  shows "currency r = (if data r = [] then ''USD'' else item_currency (last (data r)))"
proof -
  from analyze_costs_Inr [OF assms] obtain response
    where "process_response env request response = Inr r" by blast
  from process_response_Inr [OF this] show ?thesis
    by (auto simp: acc_inv_def)
qed

theorem currency_last_write_wins_witness:
  "fst (analyze_costs (example_env None (Inr two_days) no_forecast) two_days_request)
     = Inr two_days_response \<and>
   map item_currency (data two_days_response) = [''USD'', ''EUR''] \<and>
   currency two_days_response = ''EUR''"
proof -
  have h: "fst (analyze_costs (example_env None (Inr two_days) no_forecast) two_days_request)
     = Inr two_days_response"
    by (simp add: analyze_two_days)
  have d: "data two_days_response = two_days_data"
    by (simp add: two_days_response_def)
  from currency_last_write_wins [OF h] h show ?thesis
    by (simp add: d) (simp add: two_days_data_def)
qed




text \<open>
  Claim C9: for the query from 2024-01-01 to 2024-01-03, DAILY, without \<open>group_by\<close>, and a
  provider that returns two buckets without groups whose amounts are the floats 10.0 and
  20.0, the response has \<open>total_cost\<close> 30.0 and one series whose data is [10.0, 20.0].
  Of the libraries the example needs that the two dates parse and the first is before the
  second, and the float facts \<open>0.0 + 10.0 + 20.0 = 30.0\<close> and \<open>round(30.0, 2) = 30.0\<close>.
\<close>

theorem two_day_example:
  assumes "boto3_client env = None"
    and "request = \<lparr>start_date = ''2024-01-01'', end_date = ''2024-01-03'',
                    granularity = ''DAILY'', group_by = None\<rparr>"
    and "fromisoformat env ''2024-01-01'' = Inr d1"
    and "fromisoformat env ''2024-01-03'' = Inr d3"
    and "dt_ge env d1 d3 = Inr False"
    and "get_cost_and_usage env (build_query env request d1 d3) =
           Inr \<lparr>ResultsByTime =
             [\<lparr>Period_Start = s1, Period_End = e1, Groups = [],
               Total_BlendedCost = Some \<lparr>Amount = a1, Unit = u1\<rparr>\<rparr>,
              \<lparr>Period_Start = s2, Period_End = e2, Groups = [],
               Total_BlendedCost = Some \<lparr>Amount = a2, Unit = u2\<rparr>\<rparr>]\<rparr>"
    and "float_of env a1 = Inr c10"
    and "float_of env a2 = Inr c20"
    and "fadd env (fadd env (fzero env) c10) c20 = c30"
    and "round2 env c30 = c30"
  shows "\<exists>r. fst (analyze_costs env request) = Inr r \<and> total_cost r = c30 \<and>
             map ds_data (datasets (chart_data r)) = [[c10, c20]]"
  using assms
  by (simp add: analyze_costs_def analyze_body_def get_cost_explorer_client_def
      str_replace_def process_response_def make_datasets_def truthy_def)

theorem two_day_example_witness:
  "fst (analyze_costs (example_env None (Inr two_days) no_forecast) two_days_request)
     = Inr two_days_response \<and>
   total_cost two_days_response = 30 \<and>
   map ds_data (datasets (chart_data two_days_response)) = [[10, 20]]"
proof -
  let ?env = "example_env None (Inr two_days) no_forecast"
  have 1: "boto3_client ?env = None" by (simp add: example_env_def)
  have 2: "two_days_request = \<lparr>start_date = ''2024-01-01'', end_date = ''2024-01-03'',
                    granularity = ''DAILY'', group_by = None\<rparr>"
    by (simp add: two_days_request_def)
  have 3: "fromisoformat ?env ''2024-01-01'' = Inr 1"
    by (simp add: example_env_def january_def)
  have 4: "fromisoformat ?env ''2024-01-03'' = Inr 3"
    by (simp add: example_env_def january_def)
  have 5: "dt_ge ?env 1 3 = Inr False" by (simp add: example_env_def)
  have 6: "get_cost_and_usage ?env (build_query ?env two_days_request 1 3) =
           Inr \<lparr>ResultsByTime =
             [\<lparr>Period_Start = ''2024-01-01'', Period_End = ''2024-01-02'', Groups = [],
               Total_BlendedCost = Some \<lparr>Amount = ''10.00'', Unit = ''USD''\<rparr>\<rparr>,
              \<lparr>Period_Start = ''2024-01-02'', Period_End = ''2024-01-03'', Groups = [],
               Total_BlendedCost = Some \<lparr>Amount = ''20.00'', Unit = ''EUR''\<rparr>\<rparr>]\<rparr>"
    by (simp add: example_env_def two_days_def bucket_def)
  have 7: "float_of ?env ''10.00'' = Inr 10" by (simp add: example_env_def amount_def)
  have 8: "float_of ?env ''20.00'' = Inr 20" by (simp add: example_env_def amount_def)
  have 9: "fadd ?env (fadd ?env (fzero ?env) 10) 20 = 30" by (simp add: example_env_def)
  have 10: "round2 ?env 30 = 30" by (simp add: example_env_def)
  from two_day_example [OF 1 2 3 4 5 6 7 8 9 10] analyze_two_days [of no_forecast]
  show ?thesis by auto
qed

section \<open>Properties of \<open>/costs/services\<close>\<close>

lemma set_first_seen: "set (first_seen xs) = set xs"
  by (induction xs) auto

lemma distinct_first_seen: "distinct (first_seen xs)"
  by (induction xs) (auto simp: distinct_removeAll set_first_seen)

lemma services_add_keys:
  "map fst (services_add env k v d) = (if k \<in> fst ` set d then map fst d else map fst d @ [k])"
  by (induction d) force+

lemma filter_removeAll_absorb: "\<not> P k \<Longrightarrow> filter P (removeAll k xs) = filter P xs"
  by (induction xs) auto

lemma filter_insert_removeAll:
  "filter (\<lambda>k. k \<notin> insert a D) xs = filter (\<lambda>k. k \<notin> D) (removeAll a xs)"
  by (induction xs) auto

text \<open>The keys of \<open>services\<close> stand in the order in which the provider's groups bring them.\<close>

lemma sum_groups_keys:
  "sum_groups env gs d = Inr services \<Longrightarrow>
   map fst services =
     map fst d @ filter (\<lambda>k. k \<notin> fst ` set d) (first_seen (map service_key gs))"
proof (induction gs arbitrary: d)
  case Nil
  then show ?case by simp
next
  case (Cons g gs)
  from Cons.prems obtain c where c: "float_of env (Amount (Metrics_BlendedCost g)) = Inr c"
    and rest: "sum_groups env gs (services_add env (service_key g) c d) = Inr services"
    by (auto split: sum.splits)
  let ?k = "service_key g"
  let ?d = "services_add env ?k c d"
  have keys: "map fst ?d = (if ?k \<in> fst ` set d then map fst d else map fst d @ [?k])"
    by (rule services_add_keys)
  have IH: "map fst services =
      map fst ?d @ filter (\<lambda>k. k \<notin> fst ` set ?d) (first_seen (map service_key gs))"
    by (rule Cons.IH [OF rest])
  show ?case
  proof (cases "?k \<in> fst ` set d")
    case True
    with keys have "map fst ?d = map fst d" by simp
    moreover from this have "fst ` set ?d = fst ` set d"
      by (metis list.set_map)
    ultimately show ?thesis using IH True
      by (simp add: filter_removeAll_absorb)
  next
    case False
    with keys have m: "map fst ?d = map fst d @ [?k]" by simp
    then have "set (map fst ?d) = set (map fst d @ [?k])" by simp
    then have s: "fst ` set ?d = insert ?k (fst ` set d)" by simp
    have "filter (\<lambda>k. k \<notin> insert ?k (fst ` set d)) (first_seen (map service_key gs))
        = filter (\<lambda>k. k \<notin> fst ` set d) (removeAll ?k (first_seen (map service_key gs)))"
      by (rule filter_insert_removeAll)
    with IH m s False show ?thesis by simp
  qed
qed

lemma sum_groups_append:
  "sum_groups env (xs @ ys) d =
     (case sum_groups env xs d of Inl e \<Rightarrow> Inl e | Inr d' \<Rightarrow> sum_groups env ys d')"
  by (induction xs arbitrary: d) (auto split: sum.splits)

lemma sum_results_flat:
  "sum_results env rs d = sum_groups env (concat (map Groups rs)) d"
  by (induction rs arbitrary: d) (auto simp: sum_groups_append split: sum.splits)

lemma services_keys_first_seen:
  assumes "sum_results env rs [] = Inr services"
  shows "map fst services = first_seen (map service_key (concat (map Groups rs)))"
  using sum_groups_keys [of env "concat (map Groups rs)" "[]" services] assms
  by (simp add: sum_results_flat)

lemma set_insort_desc: "set (insort_desc env x ys) = insert x (set ys)"
  by (induction ys) auto

lemma set_sorted_reverse: "set (sorted_reverse env xs) = set xs"
  by (induction xs) (auto simp: sorted_reverse_def set_insort_desc)

lemma length_insort_desc: "length (insort_desc env x ys) = Suc (length ys)"
  by (induction ys) auto

lemma length_sorted_reverse: "length (sorted_reverse env xs) = length xs"
  by (induction xs) (auto simp: sorted_reverse_def length_insort_desc)

lemma occurs_before_Cons: "occurs_before xs a b \<Longrightarrow> occurs_before (x # xs) a b"
  by (auto simp: occurs_before_def dest: in_set_dropD set_dropWhileD)

lemma occurs_before_head: "z \<in> set xs \<Longrightarrow> occurs_before (x # xs) x z"
  by (simp add: occurs_before_def)

lemma occurs_before_map: "occurs_before xs a b \<Longrightarrow> occurs_before (map f xs) (f a) (f b)"
proof (induction xs)
  case Nil
  then show ?case by (simp add: occurs_before_def)
next
  case (Cons x xs)
  show ?case
  proof (cases "x = a")
    case True
    with Cons.prems have "b \<in> set xs" by (simp add: occurs_before_def)
    with True show ?thesis by (simp add: occurs_before_def)
  next
    case False
    with Cons.prems have tail: "occurs_before xs a b" by (simp add: occurs_before_def)
    show ?thesis
    proof (cases "f x = f a")
      case True
      from tail have "b \<in> set xs"
        by (auto simp: occurs_before_def dest: in_set_dropD set_dropWhileD)
      with True show ?thesis by (simp add: occurs_before_def)
    next
      case False
      with Cons.IH [OF tail] show ?thesis by (simp add: occurs_before_def)
    qed
  qed
qed

lemma ranked_Cons: "ranked env xs a b \<Longrightarrow> ranked env (x # xs) a b"
  by (auto simp: ranked_def occurs_before_Cons)

text \<open>Inserting an item keeps the list sorted and the ties in their original order.\<close>

lemma sorted_wrt_insort_desc:
  assumes "strict_weak_order_on env S" and "snd x \<in> S" and "snd ` set ys \<subseteq> S"
    and "sorted_wrt (ranked env xs) ys" and "set ys \<subseteq> set xs"
  shows "sorted_wrt (ranked env (x # xs)) (insort_desc env x ys)"
  using assms(3-5)
proof (induction ys)
  case Nil
  then show ?case by simp
next
  case (Cons y ys)
  from Cons.prems have yS: "snd y \<in> S" and ysS: "snd ` set ys \<subseteq> S"
    and sorted_ys: "sorted_wrt (ranked env xs) ys" and sub: "set ys \<subseteq> set xs"
    and y_le: "\<forall>z\<in>set ys. ranked env xs y z" and y_in: "y \<in> set xs"
    by auto
  have asym: "\<And>a b. a \<in> S \<Longrightarrow> b \<in> S \<Longrightarrow> flt env a b \<Longrightarrow> \<not> flt env b a"
    and ntrans: "\<And>a b c. a \<in> S \<Longrightarrow> b \<in> S \<Longrightarrow> c \<in> S \<Longrightarrow> \<not> flt env a b \<Longrightarrow> \<not> flt env b c
        \<Longrightarrow> \<not> flt env a c"
    using assms(1) unfolding strict_weak_order_on_def by blast+
  show ?case
  proof (cases "flt env (snd x) (snd y)")
    case True
    have tail: "sorted_wrt (ranked env (x # xs)) (insort_desc env x ys)"
      by (rule Cons.IH [OF ysS sorted_ys sub])
    have "ranked env (x # xs) y x"
      using True asym [OF assms(2) yS] by (simp add: ranked_def)
    moreover have "\<forall>z\<in>set ys. ranked env (x # xs) y z"
      using y_le by (auto intro: ranked_Cons)
    ultimately show ?thesis using True tail by (simp add: set_insort_desc)
  next
    case False
    have "ranked env (x # xs) x y"
      using False y_in by (simp add: ranked_def occurs_before_head)
    moreover have "\<forall>z\<in>set ys. ranked env (x # xs) x z"
    proof
      fix z assume z: "z \<in> set ys"
      with ysS have zS: "snd z \<in> S" by auto
      from y_le z have "\<not> flt env (snd y) (snd z)" by (simp add: ranked_def)
      with ntrans [OF assms(2) yS zS False] have "\<not> flt env (snd x) (snd z)" by simp
      moreover from z sub have "z \<in> set xs" by auto
      ultimately show "ranked env (x # xs) x z"
        by (simp add: ranked_def occurs_before_head)
    qed
    moreover have "sorted_wrt (ranked env (x # xs)) (y # ys)"
      using Cons.prems(2) by (auto intro: sorted_wrt_mono_rel [of _ "ranked env xs"] ranked_Cons)
    ultimately show ?thesis using False by simp
  qed
qed

lemma sorted_reverse_ranked:
  "strict_weak_order_on env S \<Longrightarrow> snd ` set xs \<subseteq> S \<Longrightarrow>
   sorted_wrt (ranked env xs) (sorted_reverse env xs)"
proof (induction xs)
  case Nil
  then show ?case by (simp add: sorted_reverse_def)
next
  case (Cons x xs)
  then have IH: "sorted_wrt (ranked env xs) (sorted_reverse env xs)" by simp
  have step: "sorted_reverse env (x # xs) = insort_desc env x (sorted_reverse env xs)"
    by (simp add: sorted_reverse_def)
  from Cons.prems(2) have x: "snd x \<in> S" and xs: "snd ` set (sorted_reverse env xs) \<subseteq> S"
    by (simp_all add: set_sorted_reverse)
  have sub: "set (sorted_reverse env xs) \<subseteq> set xs" by (simp add: set_sorted_reverse)
  from sorted_wrt_insort_desc [OF Cons.prems(1) x xs IH sub] step show ?case by simp
qed

lemma services_body_Inr:
  assumes "fst (get_top_services env days limit) = Inr r"
    and "minus_days env (now env) days = Inr start"
    and "get_cost_and_usage env (services_query env start (now env)) = Inr response"
    and "sum_results env (ResultsByTime response) [] = Inr services"
  shows "r = services_response env days limit services"
proof -
  from assms(1) have "fst (services_body env days limit) = Inr r"
    by (auto simp: get_top_services_def split: prod.splits dest: except_clauses_Inr)
  with assms(2-4) show ?thesis
    by (auto simp: services_body_def Let_def split: sum.splits)
qed

text \<open>
  Claim C4, as amended: for a \<open>limit\<close> that is not negative, and when \<open><\<close> orders the
  totals of the services (none is NaN), \<open>top_services\<close> lists services with their totals
  rounded, in an order in which the totals never increase; its length is the smaller of
  \<open>limit\<close> and the number of distinct services in the provider's result; and of two
  services whose totals tie, the one the provider's result brings first stands first.
\<close>

theorem top_services_sorted_bounded_stable:
  assumes "fst (get_top_services env days limit) = Inr r"
    and "minus_days env (now env) days = Inr start"
    and "get_cost_and_usage env (services_query env start (now env)) = Inr response"
    and "sum_results env (ResultsByTime response) [] = Inr services"
    and "strict_weak_order_on env (snd ` set services)"
    and "0 \<le> limit"
  shows "\<exists>tops.
           top_services r = map (\<lambda>(s, c). \<lparr>service = s, service_cost = round2 env c\<rparr>) tops \<and>
           set tops \<subseteq> set services \<and>
           sorted_wrt (\<lambda>a b. \<not> flt env (snd a) (snd b)) tops \<and>
           length (top_services r) =
             min (nat limit)
               (card (set (map service_key (concat (map Groups (ResultsByTime response)))))) \<and>
           (\<forall>i j. i < j \<and> j < length tops \<and>
                  \<not> flt env (snd (tops ! i)) (snd (tops ! j)) \<and>
                  \<not> flt env (snd (tops ! j)) (snd (tops ! i)) \<longrightarrow>
                  occurs_before
                    (first_seen (map service_key (concat (map Groups (ResultsByTime response)))))
                    (fst (tops ! i)) (fst (tops ! j)))"
proof -
  let ?keys = "map service_key (concat (map Groups (ResultsByTime response)))"
  let ?tops = "take (nat limit) (sorted_reverse env services)"
  have r: "r = services_response env days limit services"
    by (rule services_body_Inr [OF assms(1-4)])
  have keys: "map fst services = first_seen ?keys"
    by (rule services_keys_first_seen [OF assms(4)])
  have top: "top_services r = map (\<lambda>(s, c). \<lparr>service = s, service_cost = round2 env c\<rparr>) ?tops"
    using assms(6) by (simp add: r services_response_def slice_to_def)
  have sub: "set ?tops \<subseteq> set services"
    using set_take_subset [of "nat limit" "sorted_reverse env services"]
    by (simp add: set_sorted_reverse)
  have ranked: "sorted_wrt (ranked env services) ?tops"
    using sorted_reverse_ranked [OF assms(5) subset_refl] by (rule sorted_wrt_take)
  have sorted: "sorted_wrt (\<lambda>a b. \<not> flt env (snd a) (snd b)) ?tops"
    by (rule sorted_wrt_mono_rel [OF _ ranked]) (simp add: ranked_def)
  have "length services = length (map fst services)" by simp
  also have "\<dots> = card (set ?keys)"
    unfolding keys using distinct_card [OF distinct_first_seen, of ?keys]
    by (simp add: set_first_seen)
  finally have len: "length (top_services r) = min (nat limit) (card (set ?keys))"
    by (simp add: top min.commute length_sorted_reverse)
  have stable: "occurs_before (first_seen ?keys) (fst (?tops ! i)) (fst (?tops ! j))"
    if "i < j" "j < length ?tops"
      "\<not> flt env (snd (?tops ! i)) (snd (?tops ! j))"
      "\<not> flt env (snd (?tops ! j)) (snd (?tops ! i))" for i j
  proof -
    from sorted_wrt_nth_less [OF ranked that(1,2)] that(4)
    have "occurs_before services (?tops ! i) (?tops ! j)"
      by (simp add: ranked_def)
    from occurs_before_map [OF this, of fst] keys show ?thesis by simp
  qed
  from top sub sorted len stable show ?thesis by blast
qed

theorem top_services_sorted_bounded_stable_witness:
  "fst (get_top_services (example_env None (Inr grouped_days) no_forecast) 30 10)
     = Inr top3_response \<and>
   sum_results (example_env None (Inr grouped_days) no_forecast) (ResultsByTime grouped_days) []
     = Inr service_totals \<and>
   (0::int) \<le> 10 \<and>
   length (top_services top3_response) =
     min (nat 10) (card (set (map service_key (concat (map Groups (ResultsByTime grouped_days))))))"
proof -
  let ?env = "example_env None (Inr grouped_days) no_forecast"
  have 1: "fst (get_top_services ?env 30 10) = Inr top3_response"
    by (rule top3_of_grouped_days)
  have 2: "minus_days ?env (now ?env) 30 = Inr 1"
    by (simp add: example_env_def)
  have 3: "get_cost_and_usage ?env (services_query ?env 1 (now ?env)) = Inr grouped_days"
    by (simp add: example_env_def)
  have 4: "sum_results ?env (ResultsByTime grouped_days) [] = Inr service_totals"
    by (rule sum_grouped_days)
  have 5: "strict_weak_order_on ?env (snd ` set service_totals)"
    by (rule example_env_order)
  have 6: "(0::int) \<le> 10" by simp
  from top_services_sorted_bounded_stable [OF 1 2 3 4 5 6] 1 4 show ?thesis
    by auto
qed

theorem top_services_length_counterexample:
  "fst (get_top_services (example_env None (Inr grouped_days) no_forecast) 30 (- 1))
     = Inr all_but_last_response \<and>
   int (length (top_services all_but_last_response)) = 2 \<and>
   min (- 1) (int (card (set (map service_key
      (concat (map Groups (ResultsByTime grouped_days))))))) = - 1 \<and>
   \<not> int (length (top_services all_but_last_response))
       \<le> min (- 1) (int (card (set (map service_key
            (concat (map Groups (ResultsByTime grouped_days)))))))"
  by (simp add: all_but_last_of_grouped_days)
    (simp add: all_but_last_response_def)

section \<open>Missing credentials\<close>



section \<open>Properties of \<open>/costs/forecast\<close>\<close>

lemma forecast_Inr:
  assumes "fst (get_cost_forecast_handler env days) = Inr r"
  shows "\<exists>items. r = \<lparr>forecast_data = items, total_forecast = py_sum env (map mean_value items),
                      forecast_currency = ''USD'', forecast_days = days\<rparr>"
proof -
  from assms have "fst (forecast_body env days) = Inr r"
    by (auto simp: get_cost_forecast_handler_def split: prod.splits dest: except_clauses_Inr)
  then show ?thesis
    by (auto simp: forecast_body_def Let_def split: sum.splits)
qed

text \<open>
  Claim C6: in every response of \<open>/costs/forecast\<close>, \<open>total_forecast\<close> is the sum (the
  builtin \<open>sum\<close>) of the \<open>mean_value\<close> fields of the entries of \<open>forecast_data\<close>.
\<close>

theorem total_forecast_is_sum_of_means:
  assumes "fst (get_cost_forecast_handler env days) = Inr r"
  shows "total_forecast r = py_sum env (map mean_value (forecast_data r))"
  using forecast_Inr [OF assms] by auto

theorem total_forecast_is_sum_of_means_witness:
  "fst (get_cost_forecast_handler (example_env None no_usage (Inr two_points)) 2)
     = Inr two_points_response \<and>
   total_forecast two_points_response =
     py_sum (example_env None no_usage (Inr two_points))
       (map mean_value (forecast_data two_points_response))"
proof -
  have h: "fst (get_cost_forecast_handler (example_env None no_usage (Inr two_points)) 2)
     = Inr two_points_response"
    by (rule forecast_of_two_points)
  from total_forecast_is_sum_of_means [OF h] h show ?thesis by simp
qed

text \<open>
  Claim C10: in every response of \<open>/costs/forecast\<close> the field \<open>currency\<close> is the text
  \<open>USD\<close>, whatever unit the provider's forecast carries.
\<close>

theorem forecast_currency_is_USD:
  assumes "fst (get_cost_forecast_handler env days) = Inr r"
  shows "forecast_currency r = ''USD''"
  using forecast_Inr [OF assms] by auto

theorem forecast_currency_is_USD_witness:
  "fst (get_cost_forecast_handler (example_env None no_usage (Inr two_points)) 2)
     = Inr two_points_response \<and>
   Unit (forecast_Total two_points) = ''EUR'' \<and>
   forecast_currency two_points_response = ''USD''"
proof -
  have h: "fst (get_cost_forecast_handler (example_env None no_usage (Inr two_points)) 2)
     = Inr two_points_response"
    by (rule forecast_of_two_points)
  from forecast_currency_is_USD [OF h] h show ?thesis
    by (simp add: two_points_def)
qed

end
